theory Spec2Isabelle
  imports Main
begin

section \<open>JavaScript values\<close>

text \<open>
  The scripts read fields of JSON data and test them with JavaScript's truthiness and
  strict (in)equality. A JSON value, or the \<open>undefined\<close> of a missing field, is a
  \<open>jsval\<close>. Numbers are the integer-valued ones (timestamps in milliseconds,
  priorities 1 to 4); an object is the list of its own properties in order, each key once.
\<close>

datatype jsval =
    Undefined
  | Null
  | Bool bool
  | Num int
  | Str string
  | Arr "jsval list"
  | Obj "(string \<times> jsval) list"

text \<open>\<open>!!v\<close>: what \<open>if (v)\<close>, \<open>v && _\<close> and \<open>v || _\<close> test.\<close>

fun truthy :: "jsval \<Rightarrow> bool" where
  "truthy Undefined = False"
| "truthy Null = False"
| "truthy (Bool b) = b"
| "truthy (Num n) = (n \<noteq> 0)"
| "truthy (Str s) = (s \<noteq> [])"
| "truthy (Arr _) = True"
| "truthy (Obj _) = True"


text \<open>
  \<open>a !== b\<close> for two values that come from two different \<open>JSON.parse\<close> results (or
  one of them from a literal): primitives differ when they are different values, while two
  arrays or objects are different references whatever they hold.
\<close>

fun strict_neq :: "jsval \<Rightarrow> jsval \<Rightarrow> bool" where
  "strict_neq (Arr _) _ = True"
| "strict_neq (Obj _) _ = True"
| "strict_neq _ (Arr _) = True"
| "strict_neq _ (Obj _) = True"
| "strict_neq a b = (a \<noteq> b)"








section \<open>The service worker: push events (sw.js)\<close>


















section \<open>The response dashboard (response.js)\<close>

subsection \<open>Data\<close>

text \<open>
  An alert of the \<open>/alerts\<close> feed, or the payload of a clicked notification. The
  reconciling code reads \<open>timestamp\<close> only; \<open>priority\<close> and \<open>title\<close> are among the
  fields the modal renders.
\<close>

record alert =
  timestamp :: jsval
  priority :: jsval
  title :: jsval

text \<open>
  The outcome of \<open>fetch('/alerts?center=...')\<close> followed by \<open>res.json()\<close>:
  \<open>FetchFailed\<close> is every outcome that throws inside the \<open>try\<close> of \<open>loadAlerts\<close> before
  the detection block runs (network error, a body that is not JSON, a value
  \<open>renderAlerts\<close> cannot map over); \<open>FetchOk\<close> is an array of alert objects.
\<close>

datatype fetch_outcome = FetchFailed | FetchOk "alert list"

text \<open>What the page does that the operator or the backend can observe, in order.\<close>

datatype effect =
    Fetch string
  | Siren nat
  | Modal alert
  | Subscribe string

datatype display = DisplayNone | DisplayBlock | DisplayFlex

datatype dot_class = DotOnline | DotOffline | DotAlerting

datatype notif_status =
    StatusEmpty
  | StatusSettingUp
  | StatusUnsupported
  | StatusRegistrationFailed string
  | StatusPermissionDenied
  | StatusAllSet

text \<open>The three functions the script hands to \<open>setTimeout\<close>.\<close>

datatype callback =
    CbShowDashboard
  | CbRestoreDot
  | CbResume string

text \<open>
  The script's four globals, then the parts of the browser it reads and writes: local
  storage, the dropdown's options, the elements it shows and hides, the header dot, the
  timer table, the \<open>/alerts\<close> requests awaiting their response, and the trace of
  effects. Timer ids come from one counter shared by \<open>setInterval\<close> and \<open>setTimeout\<close>;
  an interval carries its period and a timeout its delay, in milliseconds.
\<close>

record page =
  selectedCenter :: "string option"
  swRegistration :: bool
  pollInterval :: "nat option"
  lastAlertTime :: jsval
  storedCenter :: "string option"
  centerOptions :: "string list"
  notifStatus :: notif_status
  enableNotifBtn :: display
  selectCard :: display
  registerCard :: display
  dashboard :: display
  activeCenterName :: "string option"
  alertsList :: "alert list"
  alertModal :: display
  modalData :: "alert option"
  dot :: dot_class
  intervals :: "(nat \<times> nat) list"
  timeouts :: "(nat \<times> nat \<times> callback) list"
  nextTimer :: nat
  inflight :: nat
  effects :: "effect list"

text \<open>
  The page as the script finds it: the globals as declared, nothing stored, no timer.
  Timer ids start at 1: the ids a browser hands out are greater than zero.
  The markup is not part of the sources; the selection card is taken to be the visible
  one, and the header dot (\<open>#connectionStatus .dot\<close>, \<open>.status-indicator .dot\<close>) to exist.
\<close>

definition init_page :: page where
  "init_page =
     \<lparr> selectedCenter = None, swRegistration = False, pollInterval = None,
       lastAlertTime = Null, storedCenter = None, centerOptions = [],
       notifStatus = StatusEmpty, enableNotifBtn = DisplayNone,
       selectCard = DisplayBlock, registerCard = DisplayNone, dashboard = DisplayNone,
       activeCenterName = None, alertsList = [], alertModal = DisplayNone,
       modalData = None, dot = DotOffline, intervals = [], timeouts = [],
       nextTimer = 1, inflight = 0, effects = [] \<rparr>"

subsection \<open>Timers\<close>

definition setInterval :: "nat \<Rightarrow> page \<Rightarrow> nat \<times> page" where
  "setInterval period s =
     (nextTimer s,
      s\<lparr> intervals := intervals s @ [(nextTimer s, period)], nextTimer := nextTimer s + 1 \<rparr>)"

definition setTimeout :: "callback \<Rightarrow> nat \<Rightarrow> page \<Rightarrow> page" where
  "setTimeout cb delay s =
     s\<lparr> timeouts := timeouts s @ [(nextTimer s, delay, cb)], nextTimer := nextTimer s + 1 \<rparr>"

text \<open>
  \<open>clearInterval(id)\<close>: \<open>null\<close> names no timer; an id cancels the timer of that id,
  interval or timeout alike.
\<close>

definition clearInterval :: "nat option \<Rightarrow> page \<Rightarrow> page" where
  "clearInterval h s =
     (case h of
        None \<Rightarrow> s
      | Some i \<Rightarrow>
          s\<lparr> intervals := filter (\<lambda>e. fst e \<noteq> i) (intervals s),
             timeouts := filter (\<lambda>e. fst e \<noteq> i) (timeouts s) \<rparr>)"

subsection \<open>Presentation\<close>

text \<open>\<open>playEmergencySound\<close> catches its own exceptions; its effect is the siren.\<close>

definition playEmergencySound :: "nat \<Rightarrow> page \<Rightarrow> page" where
  "playEmergencySound durationSec s = s\<lparr> effects := effects s @ [Siren durationSec] \<rparr>"

definition setOnline :: "bool \<Rightarrow> page \<Rightarrow> page" where
  "setOnline online s = s\<lparr> dot := (if online then DotOnline else DotOffline) \<rparr>"

text \<open>
  \<open>showAlertModal\<close>: fills the modal from \<open>data\<close>, displays it, turns the header dot to
  alerting, and asks for the dot to be restored after 60 s.
\<close>

definition showAlertModal :: "alert \<Rightarrow> page \<Rightarrow> page" where
  "showAlertModal data s =
     setTimeout CbRestoreDot 60000
       (s\<lparr> modalData := Some data, alertModal := DisplayFlex, dot := DotAlerting,
           effects := effects s @ [Modal data] \<rparr>)"

definition dismissAlertBtn :: "page \<Rightarrow> page" where
  "dismissAlertBtn s = s\<lparr> alertModal := DisplayNone, dot := DotOnline \<rparr>"

subsection \<open>Polling\<close>

text \<open>\<open>!selectedCenter\<close>: \<open>null\<close> and the empty string are falsy.\<close>

definition no_center :: "string option \<Rightarrow> bool" where
  "no_center c = (case c of None \<Rightarrow> True | Some n \<Rightarrow> n = [])"

definition renderAlerts :: "alert list \<Rightarrow> page \<Rightarrow> page" where
  "renderAlerts alerts s = s\<lparr> alertsList := alerts \<rparr>"

text \<open>
  \<open>loadAlerts\<close> up to its first \<open>await\<close>: without a selected center it returns,
  otherwise it requests that center's feed.
\<close>

definition loadAlerts :: "page \<Rightarrow> page" where
  "loadAlerts s =
     (case selectedCenter s of
        None \<Rightarrow> s
      | Some c \<Rightarrow>
          if c = [] then s
          else s\<lparr> inflight := inflight s + 1, effects := effects s @ [Fetch c] \<rparr>)"

text \<open>
  \<open>loadAlerts\<close> from the response on: the rest of the \<open>try\<close> block runs without
  another \<open>await\<close>, so it is one step. A failure is logged and changes nothing.
\<close>

definition loadAlerts_response :: "fetch_outcome \<Rightarrow> page \<Rightarrow> page" where
  "loadAlerts_response r s =
     (case r of
        FetchFailed \<Rightarrow> s
      | FetchOk alerts \<Rightarrow>
          (let s1 = renderAlerts alerts s in
           case alerts of
             [] \<Rightarrow> s1
           | a # _ \<Rightarrow>
               (let newest = timestamp a;
                    s2 = (if truthy (lastAlertTime s1) \<and> strict_neq newest (lastAlertTime s1)
                          then showAlertModal a (playEmergencySound 5 s1)
                          else s1)
                in s2\<lparr> lastAlertTime := newest \<rparr>)))"

subsection \<open>Dashboard\<close>

definition showDashboard :: "page \<Rightarrow> page" where
  "showDashboard s =
     (let s1 = s\<lparr> selectCard := DisplayNone, registerCard := DisplayNone,
                   dashboard := DisplayBlock, activeCenterName := selectedCenter s \<rparr>;
          s2 = setOnline True s1;
          s3 = loadAlerts s2;
          s4 = (case pollInterval s3 of
                  None \<Rightarrow> s3
                | Some i \<Rightarrow> if i \<noteq> 0 then clearInterval (Some i) s3 else s3);
          (h, s5) = setInterval 15000 s4
      in s5\<lparr> pollInterval := Some h \<rparr>)"

definition changeCenterView :: "page \<Rightarrow> page" where
  "changeCenterView s =
     (let s1 = clearInterval (pollInterval s) s;
          s2 = s1\<lparr> dashboard := DisplayNone, selectCard := DisplayBlock \<rparr>
      in setOnline False s2)"

subsection \<open>Enabling notifications\<close>

datatype permission = Granted | Denied | Default

datatype subscribe_result = SubscribeThrows | PostThrows | Subscribed

text \<open>
  What the browser and the network answer during one run of \<open>enableNotifications\<close>:
  whether service workers exist, the error message of a failed registration, the
  operator's answer to the permission prompt, the page's \<open>VAPID_PUBLIC_KEY\<close> (declared
  by the markup, not by the script), and how the subscription went.
\<close>

record notif_env =
  sw_supported :: bool
  register_error :: "string option"
  permission_answer :: permission
  VAPID_PUBLIC_KEY :: string
  subscription :: subscribe_result

text \<open>
  \<open>enableNotifications\<close>, run to its end with the answers of \<open>env\<close>. The wait for the
  worker's activation resolves by itself after 3 s at the latest and changes no state.
\<close>

definition enableNotifications :: "notif_env \<Rightarrow> page \<Rightarrow> page" where
  "enableNotifications env s =
     (case selectedCenter s of
        None \<Rightarrow> s
      | Some c \<Rightarrow>
          if c = [] then s
          else
            let s1 = s\<lparr> notifStatus := StatusSettingUp \<rparr> in
            if \<not> sw_supported env then s1\<lparr> notifStatus := StatusUnsupported \<rparr>
            else
              (case register_error env of
                Some msg \<Rightarrow> s1\<lparr> notifStatus := StatusRegistrationFailed msg \<rparr>
              | None \<Rightarrow>
                  (let s2 = s1\<lparr> swRegistration := True \<rparr> in
                   if permission_answer env \<noteq> Granted
                   then s2\<lparr> notifStatus := StatusPermissionDenied \<rparr>
                   else
                     let s3 = (if VAPID_PUBLIC_KEY env \<noteq> []
                                  \<and> VAPID_PUBLIC_KEY env \<noteq> ''NOT_CONFIGURED''
                               then (case subscription env of
                                       SubscribeThrows \<Rightarrow> s2
                                     | PostThrows \<Rightarrow> s2\<lparr> effects := effects s2 @ [Subscribe c] \<rparr>
                                     | Subscribed \<Rightarrow> s2\<lparr> effects := effects s2 @ [Subscribe c] \<rparr>)
                               else s2);
                         s4 = s3\<lparr> storedCenter := Some c, notifStatus := StatusAllSet \<rparr>
                     in setTimeout CbShowDashboard 800 s4)))"

subsection \<open>Events\<close>

text \<open>The \<open>change\<close> listener of the dropdown; \<open>v\<close> is \<open>this.value\<close>.\<close>

definition centerSelect_change :: "string \<Rightarrow> page \<Rightarrow> page" where
  "centerSelect_change v s =
     (let sel = (if v = [] then None else Some v) in
      s\<lparr> selectedCenter := sel,
         enableNotifBtn := (if no_center sel then DisplayNone else DisplayFlex),
         notifStatus := StatusEmpty \<rparr>)"

text \<open>
  \<open>loadCenters\<close> once \<open>/centers\<close> has answered with these names: the dropdown is
  refilled, and a stored center that is among them is selected again.
\<close>

definition loadCenters_response :: "string list \<Rightarrow> page \<Rightarrow> page" where
  "loadCenters_response names s =
     (let s1 = s\<lparr> centerOptions := names \<rparr> in
      case storedCenter s1 of
        None \<Rightarrow> s1
      | Some saved \<Rightarrow>
          if saved \<noteq> [] \<and> saved \<in> set names
          then s1\<lparr> selectedCenter := Some saved, enableNotifBtn := DisplayFlex \<rparr>
          else s1)"

text \<open>The \<open>load\<close> listener of the window.\<close>

definition window_load :: "permission \<Rightarrow> page \<Rightarrow> page" where
  "window_load perm s =
     (case storedCenter s of
        None \<Rightarrow> s
      | Some saved \<Rightarrow>
          if saved \<noteq> [] \<and> perm = Granted
          then setTimeout (CbResume saved) 600 (s\<lparr> selectedCenter := Some saved \<rparr>)
          else s)"

definition run_callback :: "callback \<Rightarrow> page \<Rightarrow> page" where
  "run_callback cb s =
     (case cb of
        CbShowDashboard \<Rightarrow> showDashboard s
      | CbRestoreDot \<Rightarrow> s\<lparr> dot := DotOnline \<rparr>
      | CbResume saved \<Rightarrow> if saved \<in> set (centerOptions s) then showDashboard s else s)"

text \<open>A pending timeout fires: it leaves the table and its callback runs.\<close>

definition timeout_fires :: "nat \<Rightarrow> page \<Rightarrow> page" where
  "timeout_fires i s =
     (case find (\<lambda>e. fst e = i) (timeouts s) of
        None \<Rightarrow> s
      | Some (_, _, cb) \<Rightarrow>
          run_callback cb (s\<lparr> timeouts := filter (\<lambda>e. fst e \<noteq> i) (timeouts s) \<rparr>))"

text \<open>An active interval fires: the polling interval's function is \<open>loadAlerts\<close>.\<close>

definition interval_fires :: "nat \<Rightarrow> page \<Rightarrow> page" where
  "interval_fires i s = (if i \<in> fst ` set (intervals s) then loadAlerts s else s)"

text \<open>A response reaches one of the \<open>/alerts\<close> requests in flight.\<close>

definition fetch_returns :: "fetch_outcome \<Rightarrow> page \<Rightarrow> page" where
  "fetch_returns r s =
     (if inflight s = 0 then s
      else loadAlerts_response r (s\<lparr> inflight := inflight s - 1 \<rparr>))"

datatype sw_message = ALERT_CLICKED alert | OtherMessage

text \<open>The \<open>message\<close> listener: what the service worker posts after a notification click.\<close>

definition on_message :: "sw_message \<Rightarrow> page \<Rightarrow> page" where
  "on_message m s =
     (case m of
        ALERT_CLICKED payload \<Rightarrow> loadAlerts (showAlertModal payload (playEmergencySound 5 s))
      | OtherMessage \<Rightarrow> s)"

datatype event =
    SelectCenter string
  | CentersLoaded "string list"
  | WindowLoad permission
  | ClickEnable notif_env
  | ClickChangeCenter
  | ClickDismiss
  | TimeoutFires nat
  | IntervalFires nat
  | FetchReturns fetch_outcome
  | WorkerMessage sw_message

fun step :: "page \<Rightarrow> event \<Rightarrow> page" where
  "step s (SelectCenter v) = centerSelect_change v s"
| "step s (CentersLoaded names) = loadCenters_response names s"
| "step s (WindowLoad perm) = window_load perm s"
| "step s (ClickEnable env) = enableNotifications env s"
| "step s ClickChangeCenter = changeCenterView s"
| "step s ClickDismiss = dismissAlertBtn s"
| "step s (TimeoutFires i) = timeout_fires i s"
| "step s (IntervalFires i) = interval_fires i s"
| "step s (FetchReturns r) = fetch_returns r s"
| "step s (WorkerMessage m) = on_message m s"

definition run :: "page \<Rightarrow> event list \<Rightarrow> page" where
  "run s evs = foldl step s evs"

text \<open>The alerts presented so far (one modal each), oldest first.\<close>

fun presentations :: "effect list \<Rightarrow> alert list" where
  "presentations [] = []"
| "presentations (Modal a # es) = a # presentations es"
| "presentations (_ # es) = presentations es"

fun sirens :: "effect list \<Rightarrow> nat" where
  "sirens [] = 0"
| "sirens (Siren _ # es) = Suc (sirens es)"
| "sirens (_ # es) = sirens es"

section \<open>The call assistant's map of nearby help centers (main.js)\<close>

text \<open>
  One entry of \<open>emergency_services\<close> in the answer of \<open>/geocode\<close>. Coordinates and
  distances are numbers the script only passes on; their type is left open.
\<close>

record 'n service =
  service_name :: string
  service_type :: string
  type_label :: string
  service_lat :: 'n
  service_lon :: 'n
  distance_km :: 'n

record 'n geo_location =
  lat :: 'n
  lon :: 'n
  display_name :: string

text \<open>
  The JSON of an answer with status 200: \<open>found\<close>, \<open>location\<close> (absent when nothing was
  found) and \<open>emergency_services\<close> (absent or \<open>null\<close> is read as \<open>[]\<close>).
\<close>

record 'n geocode_data =
  found :: bool
  location :: "'n geo_location option"
  emergency_services :: "'n service list option"

datatype 'n geocode_response = RequestFails | NotOk | Answer "'n geocode_data"

datatype 'n marker = IncidentMarker 'n 'n string | ServiceMarker 'n 'n string string

datatype 'n centers_panel = CentersLoading | NoCentersFound | CentersList "'n service list"

text \<open>
  The section \<open>createMapSection\<close> built for one result: whether it has been hidden, the
  Leaflet map drawn in it (its centre and markers), and the content of the centers
  column, which starts as the loading spinner.
\<close>

record 'n map_section =
  section_hidden :: bool
  map_view :: "('n \<times> 'n \<times> 'n marker list) option"
  centers :: "'n centers_panel"

definition marker_color :: "string \<Rightarrow> string" where
  "marker_color t =
     (if t = ''hospital'' \<or> t = ''clinic'' \<or> t = ''doctors'' then ''#4da8da''
      else if t = ''police'' then ''#5580c8'' else ''#3a60a8'')"

definition service_marker :: "'n service \<Rightarrow> 'n marker" where
  "service_marker sv =
     ServiceMarker (service_lat sv) (service_lon sv) (marker_color (service_type sv))
       (service_name sv)"

text \<open>
  \<open>showMapForResult\<close> from the answer of \<open>/geocode\<close> on. \<open>leaflet_ok\<close> says whether the
  calls into the map library succeed; when one throws, as when the request fails, the
  answer is not ok or \<open>location\<close> is missing, the \<open>catch\<close> hides the section.
\<close>

definition showMapForResult :: "bool \<Rightarrow> 'n geocode_response \<Rightarrow> 'n map_section \<Rightarrow> 'n map_section" where
  "showMapForResult leaflet_ok r m =
     (case r of
        RequestFails \<Rightarrow> m\<lparr> section_hidden := True \<rparr>
      | NotOk \<Rightarrow> m\<lparr> section_hidden := True \<rparr>
      | Answer d \<Rightarrow>
          if \<not> found d then m\<lparr> section_hidden := True \<rparr>
          else
            (case location d of
               None \<Rightarrow> m\<lparr> section_hidden := True \<rparr>
             | Some loc \<Rightarrow>
                 if \<not> leaflet_ok then m\<lparr> section_hidden := True \<rparr>
                 else
                   (let services = (case emergency_services d of None \<Rightarrow> [] | Some xs \<Rightarrow> xs);
                        m1 = m\<lparr> map_view :=
                                  Some (lat loc, lon loc,
                                        IncidentMarker (lat loc) (lon loc) (display_name loc)
                                          # map service_marker services) \<rparr>
                    in if services = [] then m1\<lparr> centers := NoCentersFound \<rparr>
                       else m1\<lparr> centers := CentersList services \<rparr>)))"

section \<open>Invariant of the timer table and sample inputs\<close>

text \<open>
  What every reachable page satisfies: timer ids are positive and below the counter, the
  active intervals are polling intervals of 15 s whose id is the one held in
  \<open>pollInterval\<close>, and no two of them share an id.
\<close>

definition timers_ok :: "page \<Rightarrow> bool" where
  "timers_ok s =
     (0 < nextTimer s
      \<and> (\<forall>e \<in> set (intervals s). pollInterval s = Some (fst e) \<and> snd e = 15000)
      \<and> (\<forall>e \<in> set (timeouts s). fst e < nextTimer s)
      \<and> distinct (map fst (intervals s))
      \<and> (case pollInterval s of None \<Rightarrow> True | Some i \<Rightarrow> 0 < i \<and> i < nextTimer s))"

text \<open>An alert whose timestamp is the number \<open>t\<close>, with priority 1 and no title.\<close>

definition alert_at :: "int \<Rightarrow> alert" where
  "alert_at t = \<lparr> timestamp = Num t, priority = Num 1, title = Undefined \<rparr>"

text \<open>
  A browser that registers the worker and an operator who grants the permission, on a
  deployment without a push key; and the same with the permission denied.
\<close>

definition granting_env :: notif_env where
  "granting_env =
     \<lparr> sw_supported = True, register_error = None, permission_answer = Granted,
       VAPID_PUBLIC_KEY = ''NOT_CONFIGURED'', subscription = SubscribeThrows \<rparr>"

definition denying_env :: notif_env where
  "denying_env = granting_env\<lparr> permission_answer := Denied \<rparr>"

text \<open>
  The operator selects a center and enables notifications, and the dashboard opens
  (timeout 1); the polling interval it starts has id 2.
\<close>

definition open_dashboard :: "string \<Rightarrow> event list" where
  "open_dashboard c = [SelectCenter c, ClickEnable granting_env, TimeoutFires 1]"

section \<open>The timer table of reachable pages\<close>

lemma timers_ok_init: "timers_ok init_page"
  by (simp add: timers_ok_def init_page_def)

lemma loadAlerts_timers [simp]:
  "intervals (loadAlerts s) = intervals s" "timeouts (loadAlerts s) = timeouts s"
  "nextTimer (loadAlerts s) = nextTimer s" "pollInterval (loadAlerts s) = pollInterval s"
  by (simp_all add: loadAlerts_def split: option.splits)

lemma filter_same_id:
  "\<forall>e \<in> set xs. fst e = i \<Longrightarrow> filter (\<lambda>e. fst e \<noteq> i) xs = []"
  by (induction xs) auto

lemma intervals_showDashboard:
  assumes "timers_ok s"
  shows "intervals (showDashboard s) = [(nextTimer s, 15000)]"
proof (cases "pollInterval s")
  case None
  with assms have "intervals s = []"
    by (cases "intervals s") (auto simp: timers_ok_def)
  with None show ?thesis
    by (simp add: showDashboard_def setOnline_def setInterval_def Let_def)
next
  case (Some i)
  with assms have "i \<noteq> 0" and "\<forall>e \<in> set (intervals s). fst e = i"
    by (auto simp: timers_ok_def)
  then have "filter (\<lambda>e. fst e \<noteq> i) (intervals s) = []"
    by (simp add: filter_same_id)
  with Some \<open>i \<noteq> 0\<close> show ?thesis
    by (simp add: showDashboard_def setOnline_def setInterval_def clearInterval_def Let_def)
qed

lemma timers_ok_showDashboard:
  assumes "timers_ok s"
  shows "timers_ok (showDashboard s)"
proof -
  have i: "intervals (showDashboard s) = [(nextTimer s, 15000)]"
    using assms by (rule intervals_showDashboard)
  have p: "pollInterval (showDashboard s) = Some (nextTimer s)"
    by (simp add: showDashboard_def setOnline_def setInterval_def clearInterval_def Let_def
        split: option.splits)
  have n: "nextTimer (showDashboard s) = nextTimer s + 1"
    by (simp add: showDashboard_def setOnline_def setInterval_def clearInterval_def Let_def
        split: option.splits)
  have t: "set (timeouts (showDashboard s)) \<subseteq> set (timeouts s)"
    by (auto simp add: showDashboard_def setOnline_def setInterval_def clearInterval_def Let_def
        split: option.splits)
  from assms have z: "0 < nextTimer s" and "\<forall>e \<in> set (timeouts s). fst e < nextTimer s"
    by (auto simp: timers_ok_def)
  with t have t': "\<forall>e \<in> set (timeouts (showDashboard s)). fst e < nextTimer s + 1"
    by fastforce
  from i p n t' z show ?thesis
    by (simp add: timers_ok_def)
qed

lemma intervals_changeCenterView:
  assumes "timers_ok s"
  shows "intervals (changeCenterView s) = []"
proof (cases "pollInterval s")
  case None
  with assms have "intervals s = []"
    by (cases "intervals s") (auto simp: timers_ok_def)
  with None show ?thesis
    by (simp add: changeCenterView_def setOnline_def clearInterval_def Let_def)
next
  case (Some i)
  with assms have "\<forall>e \<in> set (intervals s). fst e = i"
    by (auto simp: timers_ok_def)
  then have "filter (\<lambda>e. fst e \<noteq> i) (intervals s) = []"
    by (simp add: filter_same_id)
  with Some show ?thesis
    by (simp add: changeCenterView_def setOnline_def clearInterval_def Let_def)
qed

lemma timers_ok_changeCenterView:
  assumes "timers_ok s"
  shows "timers_ok (changeCenterView s)"
proof -
  have i: "intervals (changeCenterView s) = []"
    using assms by (rule intervals_changeCenterView)
  have p: "pollInterval (changeCenterView s) = pollInterval s"
    and n: "nextTimer (changeCenterView s) = nextTimer s"
    by (simp_all add: changeCenterView_def setOnline_def clearInterval_def Let_def
        split: option.splits)
  have t: "set (timeouts (changeCenterView s)) \<subseteq> set (timeouts s)"
    by (auto simp add: changeCenterView_def setOnline_def clearInterval_def Let_def
        split: option.splits)
  from assms i p n t show ?thesis
    by (auto simp: timers_ok_def split: option.splits)
qed

lemma timers_ok_setTimeout:
  "timers_ok s \<Longrightarrow> timers_ok (setTimeout cb d s)"
  by (auto simp: timers_ok_def setTimeout_def split: option.splits)

lemma timers_ok_update:
  assumes "timers_ok s"
    and "intervals s' = intervals s" "timeouts s' = timeouts s"
    and "nextTimer s' = nextTimer s" "pollInterval s' = pollInterval s"
  shows "timers_ok s'"
  using assms by (auto simp: timers_ok_def split: option.splits)

lemma timers_ok_showAlertModal:
  "timers_ok s \<Longrightarrow> timers_ok (showAlertModal a s)"
  unfolding showAlertModal_def
  by (rule timers_ok_setTimeout) (erule timers_ok_update, simp_all)

lemma timers_ok_playEmergencySound:
  "timers_ok s \<Longrightarrow> timers_ok (playEmergencySound d s)"
  by (erule timers_ok_update) (simp_all add: playEmergencySound_def)

lemma timers_ok_loadAlerts:
  "timers_ok s \<Longrightarrow> timers_ok (loadAlerts s)"
  by (erule timers_ok_update) simp_all

lemma timers_ok_lastAlertTime:
  "timers_ok s \<Longrightarrow> timers_ok (s\<lparr> lastAlertTime := t \<rparr>)"
  by (erule timers_ok_update) simp_all

lemma timers_ok_loadAlerts_response:
  assumes "timers_ok s"
  shows "timers_ok (loadAlerts_response r s)"
proof (cases r)
  case FetchFailed
  with assms show ?thesis by (simp add: loadAlerts_response_def)
next
  case (FetchOk alerts)
  have r: "timers_ok (renderAlerts alerts s)"
    using assms by (rule timers_ok_update) (simp_all add: renderAlerts_def)
  show ?thesis
  proof (cases alerts)
    case Nil
    with FetchOk r show ?thesis by (simp add: loadAlerts_response_def)
  next
    case (Cons a as)
    with FetchOk r show ?thesis
      by (simp add: loadAlerts_response_def Let_def timers_ok_lastAlertTime
          timers_ok_showAlertModal timers_ok_playEmergencySound)
  qed
qed

lemma timers_ok_enableNotifications:
  assumes "timers_ok s"
  shows "timers_ok (enableNotifications env s)"
  using assms
  by (auto simp: enableNotifications_def Let_def timers_ok_def setTimeout_def
      split: option.splits subscribe_result.splits)

lemma timers_ok_run_callback:
  "timers_ok s \<Longrightarrow> timers_ok (run_callback cb s)"
  by (cases cb) (auto simp: run_callback_def timers_ok_showDashboard elim: timers_ok_update)

lemma timers_ok_timeout_fires:
  assumes "timers_ok s"
  shows "timers_ok (timeout_fires i s)"
proof (cases "find (\<lambda>e. fst e = i) (timeouts s)")
  case None
  with assms show ?thesis by (simp add: timeout_fires_def)
next
  case (Some e)
  have "timers_ok (s\<lparr> timeouts := filter (\<lambda>e. fst e \<noteq> i) (timeouts s) \<rparr>)"
    using assms by (auto simp: timers_ok_def split: option.splits)
  with Some show ?thesis
    by (cases e) (simp add: timeout_fires_def timers_ok_run_callback)
qed

lemma timers_ok_step:
  assumes "timers_ok s"
  shows "timers_ok (step s ev)"
proof (cases ev)
  case (SelectCenter v)
  with assms show ?thesis
    by (auto simp: centerSelect_change_def Let_def elim: timers_ok_update)
next
  case (CentersLoaded names)
  with assms show ?thesis
    by (auto simp: loadCenters_response_def Let_def split: option.splits elim: timers_ok_update)
next
  case (WindowLoad perm)
  with assms show ?thesis
    by (auto simp: window_load_def split: option.splits
        intro!: timers_ok_setTimeout elim: timers_ok_update)
next
  case (ClickEnable env)
  with assms show ?thesis by (simp add: timers_ok_enableNotifications)
next
  case ClickChangeCenter
  with assms show ?thesis by (simp add: timers_ok_changeCenterView)
next
  case ClickDismiss
  with assms show ?thesis
    by (auto simp: dismissAlertBtn_def elim: timers_ok_update)
next
  case (TimeoutFires i)
  with assms show ?thesis by (simp add: timers_ok_timeout_fires)
next
  case (IntervalFires i)
  with assms show ?thesis by (simp add: interval_fires_def timers_ok_loadAlerts)
next
  case (FetchReturns r)
  have "timers_ok (s\<lparr> inflight := inflight s - 1 \<rparr>)"
    using assms by (rule timers_ok_update) simp_all
  with assms FetchReturns show ?thesis
    by (simp add: fetch_returns_def timers_ok_loadAlerts_response)
next
  case (WorkerMessage m)
  with assms show ?thesis
    by (cases m) (simp_all add: on_message_def timers_ok_loadAlerts timers_ok_showAlertModal
        timers_ok_playEmergencySound)
qed

lemma timers_ok_foldl: "timers_ok s \<Longrightarrow> timers_ok (foldl step s evs)"
  by (induction evs arbitrary: s) (simp_all add: timers_ok_step)

lemma timers_ok_run: "timers_ok (run init_page evs)"
  unfolding run_def by (rule timers_ok_foldl) (rule timers_ok_init)

lemma timers_ok_length:
  assumes "timers_ok s"
  shows "length (intervals s) \<le> 1"
proof -
  from assms have d: "distinct (map fst (intervals s))"
    and e: "\<forall>e \<in> set (intervals s). pollInterval s = Some (fst e)"
    by (auto simp: timers_ok_def)
  show ?thesis
  proof (cases "intervals s")
    case Nil
    then show ?thesis by simp
  next
    case (Cons x xs)
    show ?thesis
    proof (cases xs)
      case Nil
      with Cons show ?thesis by simp
    next
      case (Cons y ys)
      with \<open>intervals s = x # xs\<close> d e have False by auto
      then show ?thesis ..
    qed
  qed
qed

section \<open>Facts about single operations\<close>

lemmas page_defs =
  run_def open_dashboard_def granting_env_def denying_env_def alert_at_def init_page_def
  centerSelect_change_def enableNotifications_def no_center_def setTimeout_def setInterval_def
  clearInterval_def timeout_fires_def run_callback_def showDashboard_def changeCenterView_def
  setOnline_def loadAlerts_def loadAlerts_response_def renderAlerts_def fetch_returns_def
  interval_fires_def on_message_def showAlertModal_def playEmergencySound_def
  dismissAlertBtn_def Let_def

lemma presentations_append [simp]:
  "presentations (es @ fs) = presentations es @ presentations fs"
  by (induction es rule: presentations.induct) simp_all

lemma sirens_append [simp]: "sirens (es @ fs) = sirens es + sirens fs"
  by (induction es rule: sirens.induct) simp_all

lemma effects_poll:
  "effects (loadAlerts_response (FetchOk (a # as)) s) =
     effects s @ (if truthy (lastAlertTime s) \<and> strict_neq (timestamp a) (lastAlertTime s)
                  then [Siren 5, Modal a] else [])"
  by (simp add: loadAlerts_response_def renderAlerts_def showAlertModal_def
      playEmergencySound_def setTimeout_def Let_def)

lemma effects_poll_nothing:
  "effects (loadAlerts_response (FetchOk []) s) = effects s"
  "effects (loadAlerts_response FetchFailed s) = effects s"
  by (simp_all add: loadAlerts_response_def renderAlerts_def)

lemma lastAlertTime_poll:
  "lastAlertTime (loadAlerts_response (FetchOk (a # as)) s) = timestamp a"
  by (simp add: loadAlerts_response_def Let_def)

lemma lastAlertTime_poll_nothing:
  "lastAlertTime (loadAlerts_response (FetchOk []) s) = lastAlertTime s"
  "lastAlertTime (loadAlerts_response FetchFailed s) = lastAlertTime s"
  by (simp_all add: loadAlerts_response_def renderAlerts_def)

lemma modalData_poll:
  "modalData (loadAlerts_response (FetchOk (a # as)) s) =
     (if truthy (lastAlertTime s) \<and> strict_neq (timestamp a) (lastAlertTime s)
      then Some a else modalData s)"
  by (simp add: loadAlerts_response_def renderAlerts_def showAlertModal_def
      playEmergencySound_def setTimeout_def Let_def)

lemma effects_on_message:
  "effects (on_message (ALERT_CLICKED a) s) =
     effects s @ [Siren 5, Modal a]
       @ (case selectedCenter s of None \<Rightarrow> [] | Some c \<Rightarrow> if c = [] then [] else [Fetch c])"
  by (simp add: on_message_def loadAlerts_def showAlertModal_def playEmergencySound_def
      setTimeout_def split: option.splits)

lemma modalData_on_message:
  "modalData (on_message (ALERT_CLICKED a) s) = Some a"
  by (simp add: on_message_def loadAlerts_def showAlertModal_def playEmergencySound_def
      setTimeout_def split: option.splits)

lemma showDashboard_polls:
  "selectedCenter s = Some c \<Longrightarrow> c \<noteq> [] \<Longrightarrow>
     effects (showDashboard s) = effects s @ [Fetch c]
     \<and> (nextTimer s, 15000) \<in> set (intervals (showDashboard s))
     \<and> pollInterval (showDashboard s) = Some (nextTimer s)"
  by (simp add: showDashboard_def loadAlerts_def setOnline_def setInterval_def
      clearInterval_def Let_def split: option.splits)




text \<open>Which operations touch the modal's display.\<close>

lemma alertModal_loadAlerts [simp]: "alertModal (loadAlerts s) = alertModal s"
  by (simp add: loadAlerts_def split: option.splits)

lemma alertModal_showAlertModal [simp]: "alertModal (showAlertModal a s) = DisplayFlex"
  by (simp add: showAlertModal_def setTimeout_def)

lemma alertModal_showDashboard [simp]: "alertModal (showDashboard s) = alertModal s"
  by (simp add: showDashboard_def setOnline_def setInterval_def clearInterval_def
      loadAlerts_def Let_def split: option.splits)


lemma alertModal_enableNotifications [simp]:
  "alertModal (enableNotifications env s) = alertModal s"
  by (simp add: enableNotifications_def setTimeout_def Let_def
      split: option.splits subscribe_result.splits)

lemma alertModal_run_callback [simp]: "alertModal (run_callback cb s) = alertModal s"
  by (cases cb) (simp_all add: run_callback_def)

lemma alertModal_timeout_fires [simp]: "alertModal (timeout_fires i s) = alertModal s"
  by (simp add: timeout_fires_def split: option.splits prod.splits)


section \<open>Claims\<close>

subsection \<open>C1: the same alert over both channels\<close>

text \<open>
  C1, as the code has it. A notification click posted by the worker always sounds the
  siren once and shows the modal once, whatever was presented before; no identity is
  compared on that path. Polling alone does not repeat itself: of two successive fetches
  whose first elements carry the same timestamp, the second adds no effect.
\<close>

theorem push_presents_always_poll_absorbs_repeat:
  "presentations (effects (on_message (ALERT_CLICKED a) s)) = presentations (effects s) @ [a]
   \<and> sirens (effects (on_message (ALERT_CLICKED a) s)) = sirens (effects s) + 1
   \<and> (\<not> strict_neq (timestamp b) (timestamp a) \<longrightarrow>
        effects (loadAlerts_response (FetchOk (b # bs)) (loadAlerts_response (FetchOk (a # as)) s))
          = effects (loadAlerts_response (FetchOk (a # as)) s))"
  by (simp add: effects_on_message effects_poll lastAlertTime_poll split: option.splits)

text \<open>An alert with timestamp 2, clicked on a fresh page and fetched twice after timestamp 1.\<close>

theorem push_presents_always_poll_absorbs_repeat_witness:
  "\<not> strict_neq (timestamp (alert_at 2)) (timestamp (alert_at 2))
   \<and> presentations (effects (on_message (ALERT_CLICKED (alert_at 2)) init_page)) = [alert_at 2]
   \<and> effects (loadAlerts_response (FetchOk [alert_at 2])
        (loadAlerts_response (FetchOk [alert_at 2]) (init_page\<lparr> lastAlertTime := Num 1 \<rparr>)))
       = [Siren 5, Modal (alert_at 2)]"
  using push_presents_always_poll_absorbs_repeat
    [of "alert_at 2" init_page "alert_at 2" "[]" "[]"]
    push_presents_always_poll_absorbs_repeat
    [of "alert_at 2" "init_page\<lparr> lastAlertTime := Num 1 \<rparr>" "alert_at 2" "[]" "[]"]
  by (simp add: alert_at_def init_page_def effects_poll)

text \<open>
  The alert with timestamp 2 reaches an open dashboard once by polling and once by a
  notification click: it is presented twice, in either order of the two deliveries.
\<close>

theorem same_alert_presented_twice:
  "presentations (effects (run init_page (open_dashboard ''A'' @
      [FetchReturns (FetchOk [alert_at 1]), IntervalFires 2,
       FetchReturns (FetchOk [alert_at 2, alert_at 1]),
       WorkerMessage (ALERT_CLICKED (alert_at 2))]))) = [alert_at 2, alert_at 2]
   \<and> presentations (effects (run init_page (open_dashboard ''A'' @
      [FetchReturns (FetchOk [alert_at 1]),
       WorkerMessage (ALERT_CLICKED (alert_at 2)),
       FetchReturns (FetchOk [alert_at 2, alert_at 1])]))) = [alert_at 2, alert_at 2]"
  by (simp add: page_defs)

subsection \<open>C2: the first fetch after a selection\<close>

text \<open>
  C2 at a re-selection. Center A is selected and its first fetch (newest timestamp 10)
  seeds \<open>lastAlertTime\<close>; the operator leaves the dashboard, selects center B and enables
  it. Nothing has been presented when B's dashboard opens, and B's first fetch (newest
  timestamp 7) sounds the siren and shows the modal: \<open>changeCenterView\<close> and the new
  selection leave \<open>lastAlertTime\<close> at A's value.
\<close>

theorem first_fetch_after_reselection_presents:
  "presentations (effects (run init_page (open_dashboard ''A'' @
      [FetchReturns (FetchOk [alert_at 10]), ClickChangeCenter, SelectCenter ''B'',
       ClickEnable granting_env, TimeoutFires 3]))) = []
   \<and> effects (run init_page (open_dashboard ''A'' @
      [FetchReturns (FetchOk [alert_at 10]), ClickChangeCenter, SelectCenter ''B'',
       ClickEnable granting_env, TimeoutFires 3, FetchReturns (FetchOk [alert_at 7])]))
      = [Fetch ''A'', Fetch ''B'', Siren 5, Modal (alert_at 7)]"
  by (simp add: page_defs)

subsection \<open>C3: classifying a fetch\<close>

text \<open>
  C3, as the code has it. A fetch with at least one element is presented (siren, then
  modal of its first element) exactly when \<open>lastAlertTime\<close> is truthy and the first
  element's timestamp is not strictly equal to it, newer or older alike; afterwards
  \<open>lastAlertTime\<close> is that first element's timestamp. An empty or failed fetch has no
  effect.
\<close>

theorem poll_presents_on_difference:
  "effects (loadAlerts_response (FetchOk (a # as)) s) =
     effects s @ (if truthy (lastAlertTime s) \<and> strict_neq (timestamp a) (lastAlertTime s)
                  then [Siren 5, Modal a] else [])
   \<and> lastAlertTime (loadAlerts_response (FetchOk (a # as)) s) = timestamp a
   \<and> effects (loadAlerts_response (FetchOk []) s) = effects s
   \<and> effects (loadAlerts_response FetchFailed s) = effects s"
  by (simp add: effects_poll lastAlertTime_poll effects_poll_nothing)

text \<open>
  After a fetch whose newest timestamp is 5, a fetch whose newest timestamp is 3 is
  presented as a new alert, and \<open>lastAlertTime\<close> goes back to 3.
\<close>

theorem older_fetch_presented:
  "(3::int) < 5
   \<and> lastAlertTime (run init_page (open_dashboard ''A'' @ [FetchReturns (FetchOk [alert_at 5])])) = Num 5
   \<and> presentations (effects (run init_page (open_dashboard ''A'' @
        [FetchReturns (FetchOk [alert_at 5])]))) = []
   \<and> presentations (effects (run init_page (open_dashboard ''A'' @
        [FetchReturns (FetchOk [alert_at 5]), IntervalFires 2,
         FetchReturns (FetchOk [alert_at 3])]))) = [alert_at 3]
   \<and> lastAlertTime (run init_page (open_dashboard ''A'' @
        [FetchReturns (FetchOk [alert_at 5]), IntervalFires 2,
         FetchReturns (FetchOk [alert_at 3])])) = Num 3"
  by (simp add: page_defs)

subsection \<open>C4: a denied permission\<close>

text \<open>
  C4, as the code has it. When the permission is not granted, \<open>enableNotifications\<close>
  sets no timer, requests nothing and leaves the dashboard as it was; with a center
  selected and the worker registered, it reports the denial. When the permission is
  granted, whatever becomes of the subscription, it schedules \<open>showDashboard\<close> after
  800 ms, and that callback fetches the center's feed and starts the 15 s interval.
\<close>

theorem denied_permission_returns_without_polling:
  "(permission_answer env \<noteq> Granted \<longrightarrow>
      timeouts (enableNotifications env s) = timeouts s
      \<and> intervals (enableNotifications env s) = intervals s
      \<and> pollInterval (enableNotifications env s) = pollInterval s
      \<and> effects (enableNotifications env s) = effects s
      \<and> inflight (enableNotifications env s) = inflight s
      \<and> dashboard (enableNotifications env s) = dashboard s)
   \<and> (selectedCenter s = Some c \<and> c \<noteq> [] \<and> sw_supported env \<and> register_error env = None \<longrightarrow>
        (permission_answer env \<noteq> Granted \<longrightarrow>
           notifStatus (enableNotifications env s) = StatusPermissionDenied)
        \<and> (permission_answer env = Granted \<longrightarrow>
             timeouts (enableNotifications env s) = timeouts s @ [(nextTimer s, 800, CbShowDashboard)]
             \<and> selectedCenter (enableNotifications env s) = Some c
             \<and> effects (run_callback CbShowDashboard (enableNotifications env s))
                 = effects (enableNotifications env s) @ [Fetch c]
             \<and> (nextTimer (enableNotifications env s), 15000)
                 \<in> set (intervals (run_callback CbShowDashboard (enableNotifications env s)))))"
proof (intro conjI impI)
  assume d: "permission_answer env \<noteq> Granted"
  then show "timeouts (enableNotifications env s) = timeouts s"
    "intervals (enableNotifications env s) = intervals s"
    "pollInterval (enableNotifications env s) = pollInterval s"
    "effects (enableNotifications env s) = effects s"
    "inflight (enableNotifications env s) = inflight s"
    "dashboard (enableNotifications env s) = dashboard s"
    by (simp_all add: enableNotifications_def Let_def split: option.splits)
next
  assume a: "selectedCenter s = Some c \<and> c \<noteq> [] \<and> sw_supported env \<and> register_error env = None"
    and d: "permission_answer env \<noteq> Granted"
  then show "notifStatus (enableNotifications env s) = StatusPermissionDenied"
    by (simp add: enableNotifications_def Let_def)
next
  assume a: "selectedCenter s = Some c \<and> c \<noteq> [] \<and> sw_supported env \<and> register_error env = None"
    and g: "permission_answer env = Granted"
  then show t: "timeouts (enableNotifications env s) = timeouts s @ [(nextTimer s, 800, CbShowDashboard)]"
    by (simp add: enableNotifications_def Let_def setTimeout_def split: subscribe_result.splits)
  from a g show c: "selectedCenter (enableNotifications env s) = Some c"
    by (simp add: enableNotifications_def Let_def setTimeout_def split: subscribe_result.splits)
  from a show "effects (run_callback CbShowDashboard (enableNotifications env s))
                 = effects (enableNotifications env s) @ [Fetch c]"
    using showDashboard_polls [OF c] by (simp add: run_callback_def)
  from a show "(nextTimer (enableNotifications env s), 15000)
                 \<in> set (intervals (run_callback CbShowDashboard (enableNotifications env s)))"
    using showDashboard_polls [OF c] by (simp add: run_callback_def)
qed

text \<open>Center A selected on a fresh page, with the permission denied and granted.\<close>

theorem denied_permission_returns_without_polling_witness:
  "permission_answer denying_env \<noteq> Granted
   \<and> permission_answer granting_env = Granted
   \<and> selectedCenter (centerSelect_change ''A'' init_page) = Some ''A''
   \<and> sw_supported denying_env \<and> register_error denying_env = None
   \<and> sw_supported granting_env \<and> register_error granting_env = None
   \<and> timeouts (enableNotifications denying_env (centerSelect_change ''A'' init_page)) = []
   \<and> notifStatus (enableNotifications denying_env (centerSelect_change ''A'' init_page))
       = StatusPermissionDenied
   \<and> timeouts (enableNotifications granting_env (centerSelect_change ''A'' init_page))
       = [(1, 800, CbShowDashboard)]"
  using denied_permission_returns_without_polling
    [of denying_env "centerSelect_change ''A'' init_page" "''A''"]
    denied_permission_returns_without_polling
    [of granting_env "centerSelect_change ''A'' init_page" "''A''"]
  by (simp add: denying_env_def granting_env_def centerSelect_change_def init_page_def Let_def)

text \<open>
  The operator selects center A and denies the permission: the dashboard stays closed,
  no interval and no timeout is pending, and no feed has been requested.
\<close>

theorem denied_permission_blocks_polling:
  "selectedCenter (run init_page [SelectCenter ''A'', ClickEnable denying_env]) = Some ''A''
   \<and> notifStatus (run init_page [SelectCenter ''A'', ClickEnable denying_env]) = StatusPermissionDenied
   \<and> dashboard (run init_page [SelectCenter ''A'', ClickEnable denying_env]) = DisplayNone
   \<and> intervals (run init_page [SelectCenter ''A'', ClickEnable denying_env]) = []
   \<and> timeouts (run init_page [SelectCenter ''A'', ClickEnable denying_env]) = []
   \<and> effects (run init_page [SelectCenter ''A'', ClickEnable denying_env]) = []"
  by (simp add: page_defs)

subsection \<open>C5: the stored timestamp over time\<close>

text \<open>
  C5, as the code has it. After a fetch with at least one element, \<open>lastAlertTime\<close> is
  the timestamp of its first element, whatever was stored; an empty or failed fetch
  leaves it unchanged. So for numeric timestamps it does not decrease over a fetch whose
  first element is not older than the stored value.
\<close>

theorem lastAlertTime_follows_feed_head:
  "lastAlertTime (loadAlerts_response (FetchOk (a # as)) s) = timestamp a
   \<and> lastAlertTime (loadAlerts_response (FetchOk []) s) = lastAlertTime s
   \<and> lastAlertTime (loadAlerts_response FetchFailed s) = lastAlertTime s
   \<and> (lastAlertTime s = Num t \<and> timestamp a = Num u \<and> t \<le> u \<longrightarrow>
        (\<exists>v. lastAlertTime (loadAlerts_response (FetchOk (a # as)) s) = Num v \<and> t \<le> v))"
proof (intro conjI impI)
  show "lastAlertTime (loadAlerts_response (FetchOk (a # as)) s) = timestamp a"
    by (rule lastAlertTime_poll)
  show "lastAlertTime (loadAlerts_response (FetchOk []) s) = lastAlertTime s"
    by (rule lastAlertTime_poll_nothing)
  show "lastAlertTime (loadAlerts_response FetchFailed s) = lastAlertTime s"
    by (rule lastAlertTime_poll_nothing)
next
  assume "lastAlertTime s = Num t \<and> timestamp a = Num u \<and> t \<le> u"
  then show "\<exists>v. lastAlertTime (loadAlerts_response (FetchOk (a # as)) s) = Num v \<and> t \<le> v"
    by (simp add: lastAlertTime_poll)
qed

text \<open>Stored timestamp 3, then a fetch headed by timestamp 5.\<close>

theorem lastAlertTime_follows_feed_head_witness:
  "lastAlertTime (init_page\<lparr> lastAlertTime := Num 3 \<rparr>) = Num 3
   \<and> timestamp (alert_at 5) = Num 5 \<and> (3::int) \<le> 5
   \<and> lastAlertTime (loadAlerts_response (FetchOk [alert_at 5, alert_at 3])
        (init_page\<lparr> lastAlertTime := Num 3 \<rparr>)) = Num 5"
  using lastAlertTime_follows_feed_head
    [of "alert_at 5" "[alert_at 3]" "init_page\<lparr> lastAlertTime := Num 3 \<rparr>" 3 5]
  by (simp add: alert_at_def)

text \<open>
  Within one selection of center A, the stored timestamp is 5 after the first fetch and
  3 after the next one, whose newest element is older.
\<close>

theorem lastAlertTime_can_decrease:
  "lastAlertTime (run init_page (open_dashboard ''A'' @
      [FetchReturns (FetchOk [alert_at 5, alert_at 3])])) = Num 5
   \<and> lastAlertTime (run init_page (open_dashboard ''A'' @
      [FetchReturns (FetchOk [alert_at 5, alert_at 3]), IntervalFires 2,
       FetchReturns (FetchOk [alert_at 3])])) = Num 3
   \<and> (3::int) < 5"
  by (simp add: page_defs)

subsection \<open>C6: sixty seconds after an alert\<close>




subsection \<open>C7: two alerts, neither acknowledged\<close>

text \<open>
  C7, as the code has it. The modal holds the alert of the latest presentation: a
  notification click always replaces it by the clicked payload, and a fetch replaces it
  by its first element exactly when that fetch is presented (\<open>lastAlertTime\<close> truthy
  and different from the first element's timestamp). Timestamps are never compared for
  order.
\<close>

theorem latest_presentation_wins:
  "modalData (on_message (ALERT_CLICKED a) s) = Some a
   \<and> modalData (loadAlerts_response (FetchOk (a # as)) s) =
       (if truthy (lastAlertTime s) \<and> strict_neq (timestamp a) (lastAlertTime s)
        then Some a else modalData s)"
  by (simp add: modalData_on_message modalData_poll)

text \<open>
  Polling presents the alert with timestamp 3; the notification of the older alert with
  timestamp 2 is clicked afterwards, and the reload it starts finds nothing new. With
  no dismissal, the modal ends up showing the alert with timestamp 2.
\<close>

theorem older_push_replaces_newer:
  "(2::int) < 3
   \<and> modalData (run init_page (open_dashboard ''A'' @
      [FetchReturns (FetchOk [alert_at 1]), IntervalFires 2,
       FetchReturns (FetchOk [alert_at 3, alert_at 2, alert_at 1])])) = Some (alert_at 3)
   \<and> modalData (run init_page (open_dashboard ''A'' @
      [FetchReturns (FetchOk [alert_at 1]), IntervalFires 2,
       FetchReturns (FetchOk [alert_at 3, alert_at 2, alert_at 1]),
       WorkerMessage (ALERT_CLICKED (alert_at 2)),
       FetchReturns (FetchOk [alert_at 3, alert_at 2, alert_at 1])])) = Some (alert_at 2)
   \<and> alertModal (run init_page (open_dashboard ''A'' @
      [FetchReturns (FetchOk [alert_at 1]), IntervalFires 2,
       FetchReturns (FetchOk [alert_at 3, alert_at 2, alert_at 1]),
       WorkerMessage (ALERT_CLICKED (alert_at 2)),
       FetchReturns (FetchOk [alert_at 3, alert_at 2, alert_at 1])])) = DisplayFlex"
  by (simp add: page_defs)

subsection \<open>C8: push payloads that are malformed or incomplete\<close>




subsection \<open>C9: a location without nearby help centers\<close>

text \<open>
  C9. When \<open>/geocode\<close> answers \<open>found\<close> with a location and no emergency services (an
  empty, absent or \<open>null\<close> list) and the map is drawn, the centers column shows the
  "no help centers found nearby" message, the section is not hidden by the call, and
  the map carries the incident marker alone.
\<close>

theorem no_centers_is_not_an_error:
  "found d \<and> location d = Some loc
     \<and> (emergency_services d = None \<or> emergency_services d = Some []) \<longrightarrow>
   centers (showMapForResult True (Answer d) m) = NoCentersFound
   \<and> section_hidden (showMapForResult True (Answer d) m) = section_hidden m
   \<and> map_view (showMapForResult True (Answer d) m)
       = Some (lat loc, lon loc, [IncidentMarker (lat loc) (lon loc) (display_name loc)])"
  by (auto simp: showMapForResult_def Let_def split: option.splits)

text \<open>A found location with an empty list, on a visible section still loading.\<close>

theorem no_centers_is_not_an_error_witness:
  "centers (showMapForResult True
      (Answer \<lparr> found = True,
                location = Some \<lparr> lat = (17::int), lon = 78, display_name = ''Hyderabad'' \<rparr>,
                emergency_services = Some [] \<rparr>)
      \<lparr> section_hidden = False, map_view = None, centers = CentersLoading \<rparr>) = NoCentersFound
   \<and> section_hidden (showMapForResult True
      (Answer \<lparr> found = True,
                location = Some \<lparr> lat = (17::int), lon = 78, display_name = ''Hyderabad'' \<rparr>,
                emergency_services = Some [] \<rparr>)
      \<lparr> section_hidden = False, map_view = None, centers = CentersLoading \<rparr>) = False"
  using no_centers_is_not_an_error
    [of "\<lparr> found = True,
           location = Some \<lparr> lat = (17::int), lon = 78, display_name = ''Hyderabad'' \<rparr>,
           emergency_services = Some [] \<rparr>"
        "\<lparr> lat = (17::int), lon = 78, display_name = ''Hyderabad'' \<rparr>"
        "\<lparr> section_hidden = False, map_view = None, centers = CentersLoading \<rparr>"]
  by simp

subsection \<open>C10: one polling timer\<close>

text \<open>
  C10. At most one polling interval is active on any page the events can reach. Entering
  the dashboard from such a page leaves exactly one interval, the new one of 15000 ms
  (the previous one cleared), and leaving the dashboard leaves none.
\<close>

theorem one_polling_timer:
  "length (intervals (run init_page evs)) \<le> 1
   \<and> intervals (showDashboard (run init_page evs)) = [(nextTimer (run init_page evs), 15000)]
   \<and> intervals (changeCenterView (run init_page evs)) = []"
  using timers_ok_length [OF timers_ok_run, of evs]
    intervals_showDashboard [OF timers_ok_run, of evs]
    intervals_changeCenterView [OF timers_ok_run, of evs]
  by simp

end
